theory Spec2Isabelle
  imports Complex_Main
begin

section \<open>Python values\<close>

text \<open>
  The extractor passes untyped dictionaries (\<^verbatim>\<open>Dict[str, Any]\<close>) between its parts.
  They are modelled by one datatype of Python values. A dictionary is an association
  list with string keys, in insertion order; a float is the real number its literal
  denotes; a character is a code point below 256.
\<close>

datatype pyval =
    PyNone
  | PyBool bool
  | PyInt int
  | PyFloat real
  | PyStr string
  | PyList "pyval list"
  | PyDict "(string \<times> pyval) list"

text \<open>
  Exceptions are values. Only subclasses of \<^verbatim>\<open>Exception\<close> are modelled: these are
  the ones \<^verbatim>\<open>except Exception\<close> catches. \<open>LibraryError\<close> stands for whatever a
  third-party library raises.
\<close>

datatype exception =
    ImportError string
  | FileNotFoundError string
  | AttributeError string
  | LibraryError string

fun exc_str :: "exception \<Rightarrow> string" where
  "exc_str (ImportError m) = m"
| "exc_str (FileNotFoundError m) = m"
| "exc_str (AttributeError m) = m"
| "exc_str (LibraryError m) = m"

text \<open>Truthiness, as \<^verbatim>\<open>bool(v)\<close> and \<^verbatim>\<open>if v:\<close> compute it.\<close>

fun truthy :: "pyval \<Rightarrow> bool" where
  "truthy PyNone = False"
| "truthy (PyBool b) = b"
| "truthy (PyInt i) = (i \<noteq> 0)"
| "truthy (PyFloat x) = (x \<noteq> 0)"
| "truthy (PyStr s) = (s \<noteq> [])"
| "truthy (PyList xs) = (xs \<noteq> [])"
| "truthy (PyDict d) = (d \<noteq> [])"

fun type_name :: "pyval \<Rightarrow> string" where
  "type_name PyNone = ''NoneType''"
| "type_name (PyBool b) = ''bool''"
| "type_name (PyInt i) = ''int''"
| "type_name (PyFloat x) = ''float''"
| "type_name (PyStr s) = ''str''"
| "type_name (PyList xs) = ''list''"
| "type_name (PyDict d) = ''dict''"

definition no_attribute :: "pyval \<Rightarrow> string \<Rightarrow> exception" where
  "no_attribute v a =
     AttributeError ([CHR 0x27] @ type_name v @ [CHR 0x27] @ '' object has no attribute ''
                     @ [CHR 0x27] @ a @ [CHR 0x27])"

text \<open>\<^verbatim>\<open>v.get(key, default)\<close>: only a dictionary has the method.\<close>

fun py_get :: "pyval \<Rightarrow> string \<Rightarrow> pyval \<Rightarrow> exception + pyval" where
  "py_get (PyDict d) k dflt = Inr (case map_of d k of None \<Rightarrow> dflt | Some v \<Rightarrow> v)"
| "py_get v k dflt = Inl (no_attribute v ''get'')"

text \<open>
  \<^verbatim>\<open>str.strip()\<close> removes the leading and trailing characters for which
  \<^verbatim>\<open>str.isspace\<close> holds; below code point 256 these are the ones listed.
\<close>

definition is_space :: "char \<Rightarrow> bool" where
  "is_space c \<longleftrightarrow> c \<in> set [CHR 0x09, CHR 0x0A, CHR 0x0B, CHR 0x0C, CHR 0x0D,
                           CHR 0x1C, CHR 0x1D, CHR 0x1E, CHR 0x1F, CHR 0x20,
                           CHR 0x85, CHR 0xA0]"

definition strip :: "string \<Rightarrow> string" where
  "strip s = rev (dropWhile is_space (rev (dropWhile is_space s)))"

text \<open>\<^verbatim>\<open>v.strip()\<close> on an arbitrary value: only a string has the method.\<close>

fun py_strip :: "pyval \<Rightarrow> exception + pyval" where
  "py_strip (PyStr s) = Inr (PyStr (strip s))"
| "py_strip v = Inl (no_attribute v ''strip'')"

section \<open>The result validator\<close>

text \<open>
  \<^verbatim>\<open>MultiEngineExtractor._is_valid_result\<close>. The method can raise: \<^verbatim>\<open>content\<close> may
  be a value without \<^verbatim>\<open>get\<close>, \<^verbatim>\<open>raw_text\<close> a truthy value without \<^verbatim>\<open>strip\<close>.
\<close>

definition is_dict :: "pyval \<Rightarrow> bool" where
  "is_dict v = (case v of PyDict d \<Rightarrow> True | _ \<Rightarrow> False)"

definition is_valid_result :: "pyval \<Rightarrow> exception + bool" where
  "is_valid_result result =
     (if \<not> truthy result \<or> \<not> is_dict result then Inr False
      else case py_get result ''content'' (PyDict []) of
             Inl e \<Rightarrow> Inl e
           | Inr content \<Rightarrow>
               (case py_get content ''raw_text'' (PyStr []) of
                  Inl e \<Rightarrow> Inl e
                | Inr raw_text \<Rightarrow>
                    if \<not> truthy raw_text then Inr False
                    else (case py_strip raw_text of
                            Inl e \<Rightarrow> Inl e
                          | Inr stripped \<Rightarrow> Inr (truthy stripped))))"

section \<open>The environment\<close>

text \<open>
  What the program reads from outside itself: the two capability flags set when the module
  is imported, the files on disk, the document converter, and the clock.

  A page of an opened document answers \<^verbatim>\<open>extract_text()\<close> (a string, \<^verbatim>\<open>None\<close>, or
  an exception on a damaged page), \<^verbatim>\<open>images\<close> and \<^verbatim>\<open>extract_tables()\<close>.
\<close>

record page =
  extract_text :: "exception + string option"
  images :: "pyval list"
  extract_tables :: "exception + pyval list"

text \<open>
  A file on disk has a size and is either rejected by \<^verbatim>\<open>pdfplumber.open\<close> (together
  with the first access to \<^verbatim>\<open>pdf.pages\<close>) or yields its pages.
\<close>

record pdf_file =
  st_size :: nat
  pdf_pages :: "exception + page list"

record environment =
  DOCLING_AVAILABLE :: bool
  TESSERACT_AVAILABLE :: bool
  file_system :: "string \<Rightarrow> pdf_file option"
  docling_export :: "string \<Rightarrow> exception + pyval"
  time_start :: real
  time_end :: real

text \<open>
  \<open>docling_export env path\<close> is the outcome of
  \<^verbatim>\<open>DocumentConverter().convert(path).document.export_to_text()\<close>.
  \<open>time_start\<close> and \<open>time_end\<close> are the two readings of \<^verbatim>\<open>time.time()\<close> that one call
  of \<^verbatim>\<open>extract\<close> makes; their difference is taken exactly. Every call into a library
  returns or raises. The files do not change during a call, so a file that was opened
  can also be measured.
\<close>

definition no_such_file :: "string \<Rightarrow> exception" where
  "no_such_file file_path =
     FileNotFoundError (''[Errno 2] No such file or directory: '' @ [CHR 0x27] @ file_path @ [CHR 0x27])"

definition pdfplumber_open :: "environment \<Rightarrow> string \<Rightarrow> exception + page list" where
  "pdfplumber_open env file_path =
     (case file_system env file_path of
        None \<Rightarrow> Inl (no_such_file file_path)
      | Some f \<Rightarrow> pdf_pages f)"

definition path_stat_size :: "environment \<Rightarrow> string \<Rightarrow> exception + nat" where
  "path_stat_size env file_path =
     (case file_system env file_path of
        None \<Rightarrow> Inl (no_such_file file_path)
      | Some f \<Rightarrow> Inr (st_size f))"

text \<open>Log records, as the calls on \<^verbatim>\<open>logging\<close> and \<^verbatim>\<open>self.logger\<close> emit them.\<close>

datatype level = INFO | WARNING | ERROR

type_synonym log_record = "level \<times> string"

section \<open>Paths and number formatting\<close>

text \<open>
  \<^verbatim>\<open>Path(p).name\<close> on a POSIX system: the last component of the path, where empty
  components and \<^verbatim>\<open>.\<close> components do not count; the empty string if there is none.
\<close>

fun split_slash :: "string \<Rightarrow> string list" where
  "split_slash [] = [[]]"
| "split_slash (c # cs) =
     (if c = CHR ''/'' then [] # split_slash cs
      else (case split_slash cs of
              [] \<Rightarrow> [[c]]
            | w # ws \<Rightarrow> (c # w) # ws))"

definition path_parts :: "string \<Rightarrow> string list" where
  "path_parts p = filter (\<lambda>w. w \<noteq> [] \<and> w \<noteq> ''.'') (split_slash p)"

definition path_name :: "string \<Rightarrow> string" where
  "path_name p = (if path_parts p = [] then [] else last (path_parts p))"

text \<open>
  \<^verbatim>\<open>f"{x:.2f}"\<close>: the value rounded to two decimals (a tie goes to the even
  neighbour), with a minus sign for a negative value.
\<close>

definition round_half_even :: "real \<Rightarrow> int" where
  "round_half_even x =
     (let f = \<lfloor>x\<rfloor>; d = x - of_int f
      in if d < 1 / 2 then f
         else if 1 / 2 < d then f + 1
         else if even f then f else f + 1)"

definition digit :: "nat \<Rightarrow> char" where
  "digit d = ''0123456789'' ! (d mod 10)"

fun show_nat :: "nat \<Rightarrow> string" where
  "show_nat n = (if n < 10 then [digit n] else show_nat (n div 10) @ [digit n])"

definition format_2f :: "real \<Rightarrow> string" where
  "format_2f x =
     (let n = nat (round_half_even (\<bar>x\<bar> * 100))
      in (if x < 0 then ''-'' else []) @ show_nat (n div 100) @ ''.''
         @ [digit (n div 10), digit n])"

section \<open>The analyzer\<close>

text \<open>
  \<^verbatim>\<open>PDFAnalyzer.analyze_pdf\<close>. \<open>sample_loop\<close> is the \<^verbatim>\<open>for\<close> loop over the sampled
  pages; its state is \<^verbatim>\<open>(has_text, has_images, estimated_scan_pages)\<close>.
\<close>

definition enumerate :: "'a list \<Rightarrow> (nat \<times> 'a) list" where
  "enumerate xs = zip [0..<length xs] xs"

fun sample_loop ::
  "(nat \<times> page) list \<Rightarrow> bool \<times> bool \<times> nat list \<Rightarrow> exception + (bool \<times> bool \<times> nat list)" where
  "sample_loop [] st = Inr st"
| "sample_loop ((i, pg) # rest) (has_text, has_images, estimated_scan_pages) =
     (case extract_text pg of
        Inl e \<Rightarrow> Inl e
      | Inr text \<Rightarrow>
          sample_loop rest
            (if (case text of None \<Rightarrow> False | Some t \<Rightarrow> t \<noteq> [] \<and> strip t \<noteq> [])
               then True else has_text,
             if images pg \<noteq> [] then True else has_images,
             if (case text of None \<Rightarrow> True | Some t \<Rightarrow> t = [] \<or> length (strip t) < 50)
               then estimated_scan_pages @ [i] else estimated_scan_pages))"

definition sampled_pages :: "page list \<Rightarrow> (nat \<times> page) list" where
  "sampled_pages pages = enumerate (take (min 5 (length pages)) pages)"

definition strategy_of :: "bool \<Rightarrow> bool \<Rightarrow> string" where
  "strategy_of has_text has_images =
     (if \<not> has_text \<and> has_images then ''ocr_heavy''
      else if has_text \<and> \<not> has_images then ''text_extraction''
      else ''hybrid'')"

text \<open>The body of the \<^verbatim>\<open>try\<close> block.\<close>

definition analyze_body :: "environment \<Rightarrow> string \<Rightarrow> exception + pyval" where
  "analyze_body env file_path =
     (case pdfplumber_open env file_path of
        Inl e \<Rightarrow> Inl e
      | Inr pages \<Rightarrow>
          (case sample_loop (sampled_pages pages) (False, False, []) of
             Inl e \<Rightarrow> Inl e
           | Inr (has_text, has_images, estimated_scan_pages) \<Rightarrow>
               (case path_stat_size env file_path of
                  Inl e \<Rightarrow> Inl e
                | Inr file_size \<Rightarrow>
                    Inr (PyDict
                      [(''pages'', PyInt (int (length pages))),
                       (''has_text'', PyBool has_text),
                       (''has_images'', PyBool has_images),
                       (''estimated_scan_pages'', PyList (map (\<lambda>i. PyInt (int i)) estimated_scan_pages)),
                       (''file_size'', PyInt (int file_size)),
                       (''processing_strategy'', PyStr (strategy_of has_text has_images))]))))"

text \<open>The record the \<^verbatim>\<open>except\<close> branch returns.\<close>

definition minimal_analysis :: pyval where
  "minimal_analysis =
     PyDict
       [(''pages'', PyInt 1),
        (''has_text'', PyBool False),
        (''has_images'', PyBool False),
        (''estimated_scan_pages'', PyList [PyInt 0]),
        (''file_size'', PyInt 0),
        (''processing_strategy'', PyStr ''fallback'')]"

text \<open>
  The whole method: what it logs, and what it returns or raises. The type allows an
  exception; that none escapes is a theorem below.
\<close>

definition analyze_pdf :: "environment \<Rightarrow> string \<Rightarrow> log_record list \<times> (exception + pyval)" where
  "analyze_pdf env file_path =
     (case analyze_body env file_path of
        Inr analysis \<Rightarrow> ([], Inr analysis)
      | Inl e \<Rightarrow> ([(ERROR, ''PDF analysis failed: '' @ exc_str e)], Inr minimal_analysis))"

section \<open>The engine adapters\<close>

text \<open>
  An adapter takes the path and the analysis and returns a result dictionary or raises.
  The methods \<^verbatim>\<open>_docling_extract\<close>, \<^verbatim>\<open>_pdfplumber_extract\<close> and
  \<^verbatim>\<open>_tesseract_extract\<close> appear without the leading underscore.
\<close>

type_synonym extractor = "environment \<Rightarrow> string \<Rightarrow> pyval \<Rightarrow> exception + pyval"

definition docling_extract :: extractor where
  "docling_extract env pdf_path analysis =
     (if \<not> DOCLING_AVAILABLE env then Inl (ImportError ''docling not available'')
      else case docling_export env pdf_path of
             Inl e \<Rightarrow> Inl e
           | Inr text \<Rightarrow>
               (case py_get analysis ''pages'' (PyInt 0) of
                  Inl e \<Rightarrow> Inl e
                | Inr total_pages \<Rightarrow>
                    Inr (PyDict
                      [(''content'', PyDict
                          [(''raw_text'', text),
                           (''pages'', PyList []),
                           (''tables'', PyList []),
                           (''images'', PyList [])]),
                       (''metadata'', PyDict
                          [(''total_pages'', total_pages),
                           (''text_extraction_method'', PyStr ''native'')]),
                       (''confidence'', PyFloat 0.9)])))"

text \<open>
  The page loop of \<^verbatim>\<open>_pdfplumber_extract\<close>; its state is
  \<^verbatim>\<open>(pages_content, tables, raw_text)\<close>.
\<close>

definition table_records :: "nat \<Rightarrow> pyval list \<Rightarrow> pyval list" where
  "table_records i page_tables =
     map (\<lambda>(j, table). PyDict [(''page'', PyInt (int i + 1)),
                                (''table_id'', PyInt (int j)),
                                (''data'', table)])
         (enumerate page_tables)"

fun page_loop ::
  "(nat \<times> page) list \<Rightarrow> pyval list \<times> pyval list \<times> string
     \<Rightarrow> exception + (pyval list \<times> pyval list \<times> string)" where
  "page_loop [] st = Inr st"
| "page_loop ((i, pg) # rest) (pages_content, tables, raw_text) =
     (case extract_text pg of
        Inl e \<Rightarrow> Inl e
      | Inr text \<Rightarrow>
          (let page_text = (case text of None \<Rightarrow> [] | Some t \<Rightarrow> t)
           in case extract_tables pg of
                Inl e \<Rightarrow> Inl e
              | Inr page_tables \<Rightarrow>
                  page_loop rest
                    (pages_content @
                       [PyDict [(''page_num'', PyInt (int i + 1)),
                                (''text'', PyStr page_text),
                                (''tables'', PyList []),
                                (''images'', PyList [])]],
                     if page_tables \<noteq> [] then tables @ table_records i page_tables else tables,
                     raw_text @ page_text @ [CHR 0x0A])))"

definition pdfplumber_extract :: extractor where
  "pdfplumber_extract env pdf_path analysis =
     (case pdfplumber_open env pdf_path of
        Inl e \<Rightarrow> Inl e
      | Inr pages \<Rightarrow>
          (case page_loop (enumerate pages) ([], [], []) of
             Inl e \<Rightarrow> Inl e
           | Inr (pages_content, tables, raw_text) \<Rightarrow>
               Inr (PyDict
                 [(''content'', PyDict
                     [(''raw_text'', PyStr raw_text),
                      (''pages'', PyList pages_content),
                      (''tables'', PyList tables),
                      (''images'', PyList [])]),
                  (''metadata'', PyDict
                     [(''total_pages'', PyInt (int (length pages))),
                      (''text_extraction_method'', PyStr ''native'')]),
                  (''confidence'', PyFloat (if strip raw_text \<noteq> [] then 0.8 else 0.3))])))"

definition ocr_placeholder :: string where
  "ocr_placeholder = ''OCR extraction placeholder - implementation needed''"

definition tesseract_extract :: extractor where
  "tesseract_extract env pdf_path analysis =
     (if \<not> TESSERACT_AVAILABLE env then Inl (ImportError ''pytesseract not available'')
      else case py_get analysis ''pages'' (PyInt 0) of
             Inl e \<Rightarrow> Inl e
           | Inr total_pages \<Rightarrow>
               Inr (PyDict
                 [(''content'', PyDict
                     [(''raw_text'', PyStr ocr_placeholder),
                      (''pages'', PyList []),
                      (''tables'', PyList []),
                      (''images'', PyList [])]),
                  (''metadata'', PyDict
                     [(''total_pages'', total_pages),
                      (''text_extraction_method'', PyStr ''ocr'')]),
                  (''confidence'', PyFloat 0.6)]))"

section \<open>The orchestrator\<close>

record ExtractionResult =
  extraction_info :: pyval
  content :: pyval
  metadata :: pyval

record MultiEngineExtractor =
  engines :: "(string \<times> extractor) list"

text \<open>\<^verbatim>\<open>MultiEngineExtractor.__init__\<close>.\<close>

definition init :: MultiEngineExtractor where
  "init = \<lparr>engines = [(''docling'', docling_extract),
                         (''pdfplumber'', pdfplumber_extract),
                         (''tesseract'', tesseract_extract)]\<rparr>"

definition processing_time :: "environment \<Rightarrow> string" where
  "processing_time env = format_2f (time_end env - time_start env) @ ''s''"

text \<open>
  The body of the \<^verbatim>\<open>try\<close> block for one engine: \<open>Inr (Some r)\<close> is the \<^verbatim>\<open>return\<close>
  of a success result, \<open>Inr None\<close> falls through to the next engine.
\<close>

definition try_engine ::
  "environment \<Rightarrow> string \<Rightarrow> pyval \<Rightarrow> string \<Rightarrow> extractor \<Rightarrow> exception + ExtractionResult option" where
  "try_engine env pdf_path analysis engine_name extractor =
     (case extractor env pdf_path analysis of
        Inl e \<Rightarrow> Inl e
      | Inr result \<Rightarrow>
          (case is_valid_result result of
             Inl e \<Rightarrow> Inl e
           | Inr valid \<Rightarrow>
               if valid then
                 (case py_get result ''confidence'' (PyFloat 0.8) of
                    Inl e \<Rightarrow> Inl e
                  | Inr confidence \<Rightarrow>
                      (case py_get result ''content'' (PyDict []) of
                         Inl e \<Rightarrow> Inl e
                       | Inr result_content \<Rightarrow>
                           (case py_get result ''metadata'' (PyDict []) of
                              Inl e \<Rightarrow> Inl e
                            | Inr result_metadata \<Rightarrow>
                                Inr (Some
                                  \<lparr>extraction_info = PyDict
                                     [(''file_name'', PyStr (path_name pdf_path)),
                                      (''processing_time'', PyStr (processing_time env)),
                                      (''engine_used'', PyList [PyStr engine_name]),
                                      (''status'', PyStr ''success''),
                                      (''confidence'', confidence)],
                                   content = result_content,
                                   metadata = result_metadata\<rparr>))))
               else Inr None))"

text \<open>The \<^verbatim>\<open>for\<close> loop over \<^verbatim>\<open>self.engines\<close>, with the log records it emits.\<close>

definition trying :: "string \<Rightarrow> string \<Rightarrow> log_record" where
  "trying pdf_path engine_name = (INFO, ''Trying '' @ engine_name @ '' extraction for '' @ pdf_path)"

fun engines_loop ::
  "environment \<Rightarrow> string \<Rightarrow> pyval \<Rightarrow> (string \<times> extractor) list
     \<Rightarrow> log_record list \<times> ExtractionResult option" where
  "engines_loop env pdf_path analysis [] = ([], None)"
| "engines_loop env pdf_path analysis ((engine_name, extractor) # rest) =
     (case try_engine env pdf_path analysis engine_name extractor of
        Inr (Some r) \<Rightarrow> ([trying pdf_path engine_name], Some r)
      | Inr None \<Rightarrow>
          (case engines_loop env pdf_path analysis rest of
             (logs, r) \<Rightarrow> (trying pdf_path engine_name # logs, r))
      | Inl e \<Rightarrow>
          (case engines_loop env pdf_path analysis rest of
             (logs, r) \<Rightarrow>
               (trying pdf_path engine_name
                  # (ERROR, engine_name @ '' extraction failed: '' @ exc_str e) # logs, r)))"

definition fallback_result :: "environment \<Rightarrow> string \<Rightarrow> pyval \<Rightarrow> ExtractionResult" where
  "fallback_result env pdf_path total_pages =
     \<lparr>extraction_info = PyDict
        [(''file_name'', PyStr (path_name pdf_path)),
         (''processing_time'', PyStr (processing_time env)),
         (''engine_used'', PyList [PyStr ''fallback'']),
         (''status'', PyStr ''fallback''),
         (''confidence'', PyFloat 0.1)],
      content = PyDict
        [(''raw_text'', PyStr (''Failed to extract content from '' @ path_name pdf_path)),
         (''pages'', PyList []),
         (''tables'', PyList []),
         (''images'', PyList [])],
      metadata = PyDict
        [(''total_pages'', total_pages),
         (''text_extraction_method'', PyStr ''fallback'')]\<rparr>"

text \<open>
  \<^verbatim>\<open>MultiEngineExtractor.extract\<close>: the log records it emits, and what it returns or
  raises. The constant carries the class name because the bare method name is reserved.
\<close>

definition MultiEngineExtractor_extract ::
  "MultiEngineExtractor \<Rightarrow> environment \<Rightarrow> string \<Rightarrow> log_record list \<times> (exception + ExtractionResult)" where
  "MultiEngineExtractor_extract self env pdf_path =
     (case analyze_pdf env pdf_path of
        (log0, Inl e) \<Rightarrow> (log0, Inl e)
      | (log0, Inr analysis) \<Rightarrow>
          (case engines_loop env pdf_path analysis (engines self) of
             (log1, Some r) \<Rightarrow> (log0 @ log1, Inr r)
           | (log1, None) \<Rightarrow>
               (let log2 = [(WARNING, ''All engines failed for '' @ pdf_path
                                        @ '', returning fallback result'')]
                in case py_get analysis ''pages'' (PyInt 0) of
                     Inl e \<Rightarrow> (log0 @ log1 @ log2, Inl e)
                   | Inr total_pages \<Rightarrow>
                       (log0 @ log1 @ log2, Inr (fallback_result env pdf_path total_pages)))))"

section \<open>Notions used to state the properties\<close>

text \<open>An engine succeeds when its adapter returns and the validator accepts the result.\<close>

definition engine_succeeds :: "environment \<Rightarrow> string \<Rightarrow> pyval \<Rightarrow> extractor \<Rightarrow> bool" where
  "engine_succeeds env pdf_path analysis ex =
     (case ex env pdf_path analysis of
        Inl e \<Rightarrow> False
      | Inr result \<Rightarrow> is_valid_result result = Inr True)"

text \<open>The \<open>INFO\<close> records of a log: one per engine that was invoked.\<close>

definition info_records :: "log_record list \<Rightarrow> log_record list" where
  "info_records logs = filter (\<lambda>r. fst r = INFO) logs"

text \<open>A page is readable when \<^verbatim>\<open>extract_text()\<close> returns on it.\<close>

definition readable :: "page \<Rightarrow> bool" where
  "readable pg = (case extract_text pg of Inl e \<Rightarrow> False | Inr text \<Rightarrow> True)"

text \<open>
  The shape of a finished \<^verbatim>\<open>ExtractionResult\<close>: the five entries of
  \<^verbatim>\<open>extraction_info\<close>, the four of \<^verbatim>\<open>content\<close> and the two of \<^verbatim>\<open>metadata\<close>, each of
  the expected type, the status and the method among the known labels, the confidence
  between 0 and 1.
\<close>

definition has_field :: "pyval \<Rightarrow> string \<Rightarrow> (pyval \<Rightarrow> bool) \<Rightarrow> bool" where
  "has_field v k P =
     (case v of
        PyDict d \<Rightarrow> (case map_of d k of None \<Rightarrow> False | Some x \<Rightarrow> P x)
      | _ \<Rightarrow> False)"

definition is_str :: "pyval \<Rightarrow> bool" where
  "is_str v = (case v of PyStr s \<Rightarrow> True | _ \<Rightarrow> False)"

definition is_int :: "pyval \<Rightarrow> bool" where
  "is_int v = (case v of PyInt i \<Rightarrow> True | _ \<Rightarrow> False)"

definition is_list :: "pyval \<Rightarrow> bool" where
  "is_list v = (case v of PyList xs \<Rightarrow> True | _ \<Rightarrow> False)"

definition is_engine_list :: "pyval \<Rightarrow> bool" where
  "is_engine_list v = (case v of PyList [PyStr n] \<Rightarrow> True | _ \<Rightarrow> False)"

definition is_confidence :: "pyval \<Rightarrow> bool" where
  "is_confidence v = (case v of PyFloat c \<Rightarrow> 0 \<le> c \<and> c \<le> 1 | _ \<Rightarrow> False)"

definition well_formed :: "ExtractionResult \<Rightarrow> bool" where
  "well_formed r \<longleftrightarrow>
     has_field (extraction_info r) ''file_name'' is_str \<and>
     has_field (extraction_info r) ''processing_time'' is_str \<and>
     has_field (extraction_info r) ''engine_used'' is_engine_list \<and>
     has_field (extraction_info r) ''status''
       (\<lambda>v. v = PyStr ''success'' \<or> v = PyStr ''fallback'') \<and>
     has_field (extraction_info r) ''confidence'' is_confidence \<and>
     has_field (content r) ''raw_text'' is_str \<and>
     has_field (content r) ''pages'' is_list \<and>
     has_field (content r) ''tables'' is_list \<and>
     has_field (content r) ''images'' is_list \<and>
     has_field (metadata r) ''total_pages'' is_int \<and>
     has_field (metadata r) ''text_extraction_method''
       (\<lambda>v. v = PyStr ''native'' \<or> v = PyStr ''ocr'' \<or> v = PyStr ''fallback'')"

text \<open>The dictionary that each of the three adapters builds, with its varying parts.\<close>

definition result_dict ::
  "pyval \<Rightarrow> pyval list \<Rightarrow> pyval list \<Rightarrow> pyval \<Rightarrow> string \<Rightarrow> real \<Rightarrow> pyval" where
  "result_dict raw_text pages tables total_pages method confidence =
     PyDict
       [(''content'', PyDict
           [(''raw_text'', raw_text),
            (''pages'', PyList pages),
            (''tables'', PyList tables),
            (''images'', PyList [])]),
        (''metadata'', PyDict
           [(''total_pages'', total_pages),
            (''text_extraction_method'', PyStr method)]),
        (''confidence'', PyFloat confidence)]"

section \<open>Example inputs\<close>

text \<open>
  Concrete pages, files and environments on which the theorems below are exercised: a page
  of native text, a scanned page (an image, no text), a page whose text cannot be read.
\<close>

definition text_page :: page where
  "text_page = \<lparr>extract_text = Inr (Some ''Quarterly report''), images = [],
                 extract_tables = Inr []\<rparr>"

definition scanned_page :: page where
  "scanned_page = \<lparr>extract_text = Inr None, images = [PyDict [(''name'', PyStr ''Im0'')]],
                    extract_tables = Inr []\<rparr>"

definition damaged_page :: page where
  "damaged_page = \<lparr>extract_text = Inl (LibraryError ''unexpected end of stream''),
                    images = [], extract_tables = Inr []\<rparr>"

text \<open>No capability installed and no file on disk.\<close>

definition env_bare :: environment where
  "env_bare = \<lparr>DOCLING_AVAILABLE = False, TESSERACT_AVAILABLE = False,
                file_system = (\<lambda>p. None),
                docling_export = (\<lambda>p. Inl (LibraryError ''no converter'')),
                time_start = 0, time_end = 5 / 4\<rparr>"

text \<open>Only the OCR capability installed, no file on disk.\<close>

definition env_ocr :: environment where
  "env_ocr = env_bare\<lparr>TESSERACT_AVAILABLE := True\<rparr>"

text \<open>
  Every capability installed; \<^verbatim>\<open>doc.pdf\<close> has one page of native text, \<^verbatim>\<open>scan.pdf\<close> has
  seven scanned pages, \<^verbatim>\<open>empty.pdf\<close> has no page, and the converter reads whatever it is
  given.
\<close>

definition env_full :: environment where
  "env_full = \<lparr>DOCLING_AVAILABLE = True, TESSERACT_AVAILABLE = True,
                file_system = (\<lambda>p.
                  if p = ''doc.pdf'' then Some \<lparr>st_size = 1024, pdf_pages = Inr [text_page]\<rparr>
                  else if p = ''scan.pdf''
                    then Some \<lparr>st_size = 4096, pdf_pages = Inr (replicate 7 scanned_page)\<rparr>
                  else if p = ''empty.pdf'' then Some \<lparr>st_size = 300, pdf_pages = Inr []\<rparr>
                  else None),
                docling_export = (\<lambda>p. Inr (PyStr ''Quarterly report'')),
                time_start = 0, time_end = 5 / 4\<rparr>"

section \<open>Auxiliary facts\<close>

lemma strip_Nil [simp]: "strip [] = []"
  by (simp add: strip_def)

lemma is_valid_result_dict:
  "is_valid_result (PyDict d) =
     (if d = [] then Inr False
      else case (case map_of d ''content'' of None \<Rightarrow> PyDict [] | Some v \<Rightarrow> v) of
             PyDict c \<Rightarrow>
               (case (case map_of c ''raw_text'' of None \<Rightarrow> PyStr [] | Some v \<Rightarrow> v) of
                  PyStr t \<Rightarrow> Inr (strip t \<noteq> [])
                | v \<Rightarrow> if truthy v then Inl (no_attribute v ''strip'') else Inr False)
           | v \<Rightarrow> Inl (no_attribute v ''get''))"
  by (auto simp: is_valid_result_def is_dict_def split: option.splits pyval.splits)

lemma is_valid_result_iff:
  "is_valid_result r = Inr True \<longleftrightarrow>
     (\<exists>d c t. r = PyDict d \<and> map_of d ''content'' = Some (PyDict c)
        \<and> map_of c ''raw_text'' = Some (PyStr t) \<and> strip t \<noteq> [])"
proof (cases r)
  case (PyDict d)
  show ?thesis
    unfolding PyDict is_valid_result_dict
    by (auto split: option.splits pyval.splits)
qed (simp_all add: is_valid_result_def is_dict_def)

lemma try_engine_success:
  assumes "ex env p a = Inr (PyDict d)" and "is_valid_result (PyDict d) = Inr True"
  shows "try_engine env p a n ex =
     Inr (Some \<lparr>extraction_info = PyDict
                   [(''file_name'', PyStr (path_name p)),
                    (''processing_time'', PyStr (processing_time env)),
                    (''engine_used'', PyList [PyStr n]),
                    (''status'', PyStr ''success''),
                    (''confidence'', case map_of d ''confidence'' of None \<Rightarrow> PyFloat 0.8 | Some c \<Rightarrow> c)],
                 content = (case map_of d ''content'' of None \<Rightarrow> PyDict [] | Some c \<Rightarrow> c),
                 metadata = (case map_of d ''metadata'' of None \<Rightarrow> PyDict [] | Some m \<Rightarrow> m)\<rparr>)"
  using assms by (simp add: try_engine_def split: option.splits)

lemma try_engine_fail:
  "\<not> engine_succeeds env p a ex \<Longrightarrow> try_engine env p a n ex \<noteq> Inr (Some r)"
  by (auto simp: try_engine_def engine_succeeds_def split: sum.splits if_splits)

lemma engines_loop_all_fail:
  assumes "\<forall>(n, f) \<in> set es. \<not> engine_succeeds env p a f"
  shows "snd (engines_loop env p a es) = None
         \<and> info_records (fst (engines_loop env p a es)) = map (trying p) (map fst es)"
  using assms
proof (induction es)
  case Nil
  then show ?case by (simp add: info_records_def)
next
  case (Cons x es)
  obtain n f where x: "x = (n, f)" by (cases x)
  from Cons.prems x have nf: "\<not> engine_succeeds env p a f" by simp
  have no: "\<And>r. try_engine env p a n f \<noteq> Inr (Some r)"
    using try_engine_fail [OF nf] by blast
  from Cons have IH: "snd (engines_loop env p a es) = None"
     "info_records (fst (engines_loop env p a es)) = map (trying p) (map fst es)" by auto
  show ?case
    using IH no unfolding x
    by (cases "try_engine env p a n f")
       (auto simp: info_records_def trying_def split: prod.splits option.splits)
qed

lemma engines_loop_first_success:
  assumes "\<forall>(n, f) \<in> set pre. \<not> engine_succeeds env p a f"
      and "try_engine env p a name ex = Inr (Some r)"
  shows "snd (engines_loop env p a (pre @ (name, ex) # post)) = Some r
         \<and> info_records (fst (engines_loop env p a (pre @ (name, ex) # post)))
             = map (trying p) (map fst pre @ [name])"
  using assms
proof (induction pre)
  case Nil
  then show ?case by (simp add: info_records_def trying_def)
next
  case (Cons x pre)
  obtain n f where x: "x = (n, f)" by (cases x)
  from Cons.prems x have nf: "\<not> engine_succeeds env p a f" by simp
  have no: "\<And>r. try_engine env p a n f \<noteq> Inr (Some r)"
    using try_engine_fail [OF nf] by blast
  from Cons have IH: "snd (engines_loop env p a (pre @ (name, ex) # post)) = Some r"
     "info_records (fst (engines_loop env p a (pre @ (name, ex) # post)))
             = map (trying p) (map fst pre @ [name])" by auto
  show ?case
    using IH no unfolding x
    by (cases "try_engine env p a n f")
       (auto simp: info_records_def trying_def split: prod.splits option.splits)
qed


lemma take_min5: "take (min 5 (length xs)) xs = take 5 xs"
  by (simp add: min_def)

lemma enumerate_fst: "map fst (enumerate xs) = [0..<length xs]"
  by (simp add: enumerate_def)

lemma enumerate_snd: "map snd (enumerate xs) = xs"
  by (simp add: enumerate_def)

lemma sample_loop_fails_iff:
  "(\<exists>e. sample_loop xs st = Inl e) \<longleftrightarrow> (\<exists>pg \<in> set (map snd xs). \<not> readable pg)"
proof (induction xs st rule: sample_loop.induct)
  case (1 st)
  then show ?case by simp
next
  case (2 i pg rest has_text has_images estimated_scan_pages)
  then show ?case
    by (cases "extract_text pg") (auto simp: readable_def)
qed

lemma sample_loop_indices:
  "sample_loop xs (ht, hi, sp) = Inr (ht', hi', sp') \<Longrightarrow> set sp' \<subseteq> set sp \<union> fst ` set xs"
proof (induction xs arbitrary: ht hi sp)
  case Nil
  then show ?case by simp
next
  case (Cons x xs)
  obtain i pg where x: "x = (i, pg)" by (cases x)
  show ?case
  proof (cases "extract_text pg")
    case (Inl e)
    with Cons.prems x show ?thesis by simp
  next
    case (Inr t0)
    with Cons.prems x obtain ht1 hi1 sp1 where
      step: "sample_loop xs (ht1, hi1, sp1) = Inr (ht', hi', sp')" and sub: "set sp1 \<subseteq> set sp \<union> {i}"
      by (auto split: if_splits)
    from Cons.IH [OF step] sub show ?thesis
      unfolding x by auto
  qed
qed

lemma open_stat:
  "pdfplumber_open env p = Inr pages \<Longrightarrow>
     \<exists>f. file_system env p = Some f \<and> pdf_pages f = Inr pages \<and> path_stat_size env p = Inr (st_size f)"
  by (auto simp: pdfplumber_open_def path_stat_size_def split: option.splits)

lemma analyze_body_fails_iff:
  "(\<exists>e. analyze_body env p = Inl e) \<longleftrightarrow>
     (case pdfplumber_open env p of
        Inl e \<Rightarrow> True
      | Inr pages \<Rightarrow> \<exists>pg \<in> set (take 5 pages). \<not> readable pg)"
proof (cases "pdfplumber_open env p")
  case (Inl e)
  then show ?thesis by (simp add: analyze_body_def)
next
  case (Inr pages)
  from open_stat [OF Inr] obtain n where st: "path_stat_size env p = Inr n" by blast
  have sp: "map snd (sampled_pages pages) = take 5 pages"
    by (simp add: sampled_pages_def enumerate_snd take_min5 del: map_snd_zip)
  show ?thesis
  proof (cases "sample_loop (sampled_pages pages) (False, False, [])")
    case (Inl e)
    with sample_loop_fails_iff [of "sampled_pages pages" "(False, False, [])"] sp Inr
    show ?thesis by (auto simp: analyze_body_def)
  next
    case r: (Inr st)
    with sample_loop_fails_iff [of "sampled_pages pages" "(False, False, [])"] sp
    have "\<not> (\<exists>pg \<in> set (take 5 pages). \<not> readable pg)" by auto
    with r Inr st show ?thesis
      by (auto simp: analyze_body_def split: prod.splits)
  qed
qed

lemma analyze_pdf_cases:
  "analyze_pdf env p = ([], analyze_body env p) \<and> (\<exists>a. analyze_body env p = Inr a)
   \<or> (\<exists>e. analyze_body env p = Inl e \<and>
        analyze_pdf env p = ([(ERROR, ''PDF analysis failed: '' @ exc_str e)], Inr minimal_analysis))"
  by (cases "analyze_body env p") (auto simp: analyze_pdf_def)

lemma analyze_pdf_pages:
  "\<exists>d n. snd (analyze_pdf env p) = Inr (PyDict d) \<and> map_of d ''pages'' = Some (PyInt n)"
proof (cases "analyze_body env p")
  case (Inl e)
  then show ?thesis by (simp add: analyze_pdf_def minimal_analysis_def)
next
  case (Inr a)
  then show ?thesis
    by (auto simp: analyze_pdf_def analyze_body_def split: sum.splits prod.splits)
qed

lemma analyze_pdf_no_info: "info_records (fst (analyze_pdf env p)) = []"
  by (cases "analyze_body env p") (simp_all add: analyze_pdf_def info_records_def)

lemma info_records_append: "info_records (xs @ ys) = info_records xs @ info_records ys"
  by (simp add: info_records_def)

lemma extract_success:
  assumes "snd (analyze_pdf env p) = Inr a"
      and "snd (engines_loop env p a (engines self)) = Some r"
  shows "snd (MultiEngineExtractor_extract self env p) = Inr r"
    and "info_records (fst (MultiEngineExtractor_extract self env p))
           = info_records (fst (engines_loop env p a (engines self)))"
proof -
  obtain log0 where a: "analyze_pdf env p = (log0, Inr a)"
    using assms(1) by (cases "analyze_pdf env p") auto
  obtain log1 where l: "engines_loop env p a (engines self) = (log1, Some r)"
    using assms(2) by (cases "engines_loop env p a (engines self)") auto
  from analyze_pdf_no_info [of env p] a have n: "info_records log0 = []" by simp
  show "snd (MultiEngineExtractor_extract self env p) = Inr r"
    by (simp add: MultiEngineExtractor_extract_def a l)
  show "info_records (fst (MultiEngineExtractor_extract self env p))
           = info_records (fst (engines_loop env p a (engines self)))"
    by (simp add: MultiEngineExtractor_extract_def a l info_records_append n)
qed

lemma extract_fallback:
  assumes "snd (analyze_pdf env p) = Inr a"
      and "snd (engines_loop env p a (engines self)) = None"
      and "py_get a ''pages'' (PyInt 0) = Inr total_pages"
  shows "snd (MultiEngineExtractor_extract self env p) = Inr (fallback_result env p total_pages)"
proof -
  obtain log0 where a: "analyze_pdf env p = (log0, Inr a)"
    using assms(1) by (cases "analyze_pdf env p") auto
  obtain log1 where l: "engines_loop env p a (engines self) = (log1, None)"
    using assms(2) by (cases "engines_loop env p a (engines self)") auto
  show ?thesis
    by (simp add: MultiEngineExtractor_extract_def a l assms(3))
qed

lemma engine_succeeds_try:
  assumes "engine_succeeds env p a ex"
  shows "\<exists>d. ex env p a = Inr (PyDict d) \<and> is_valid_result (PyDict d) = Inr True"
proof -
  from assms obtain res where r: "ex env p a = Inr res" "is_valid_result res = Inr True"
    by (auto simp: engine_succeeds_def split: sum.splits)
  from r(2) obtain d where "res = PyDict d" unfolding is_valid_result_iff by blast
  with r show ?thesis by blast
qed

lemma env_bare_analysis: "analyze_pdf env_bare p = ([(ERROR, ''PDF analysis failed: '' @ exc_str (no_such_file p))], Inr minimal_analysis)"
  by (simp add: analyze_pdf_def analyze_body_def pdfplumber_open_def env_bare_def)

lemma env_bare_engines:
  "\<not> engine_succeeds env_bare p a docling_extract"
  "\<not> engine_succeeds env_bare p a pdfplumber_extract"
  "\<not> engine_succeeds env_bare p a tesseract_extract"
  by (simp_all add: engine_succeeds_def docling_extract_def pdfplumber_extract_def
        tesseract_extract_def pdfplumber_open_def env_bare_def)

lemma path_name_example: "path_name ''reports/q3.pdf'' = ''q3.pdf''"
  by (simp add: path_name_def path_parts_def)

lemma processing_time_example: "processing_time env_bare = ''1.25s''"
  by (simp add: processing_time_def env_bare_def format_2f_def round_half_even_def digit_def)

lemma first_success:
  assumes an: "snd (analyze_pdf env p) = Inr a"
      and es: "engines self = pre @ (name, ex) # post"
      and pre: "\<forall>(n, f) \<in> set pre. \<not> engine_succeeds env p a f"
      and ex: "ex env p a = Inr (PyDict d)"
      and valid: "is_valid_result (PyDict d) = Inr True"
  shows "snd (MultiEngineExtractor_extract self env p) =
           Inr \<lparr>extraction_info = PyDict
                  [(''file_name'', PyStr (path_name p)),
                   (''processing_time'', PyStr (processing_time env)),
                   (''engine_used'', PyList [PyStr name]),
                   (''status'', PyStr ''success''),
                   (''confidence'', case map_of d ''confidence'' of None \<Rightarrow> PyFloat 0.8 | Some c \<Rightarrow> c)],
                content = (case map_of d ''content'' of None \<Rightarrow> PyDict [] | Some c \<Rightarrow> c),
                metadata = (case map_of d ''metadata'' of None \<Rightarrow> PyDict [] | Some m \<Rightarrow> m)\<rparr>"
    and "info_records (fst (MultiEngineExtractor_extract self env p))
           = map (trying p) (map fst pre @ [name])"
proof -
  note t = try_engine_success [where ex = ex and env = env and p = p and a = a and n = name, OF ex valid]
  note l = engines_loop_first_success [OF pre t, of post]
  from l have s: "snd (engines_loop env p a (engines self)) = Some
      \<lparr>extraction_info = PyDict
                  [(''file_name'', PyStr (path_name p)),
                   (''processing_time'', PyStr (processing_time env)),
                   (''engine_used'', PyList [PyStr name]),
                   (''status'', PyStr ''success''),
                   (''confidence'', case map_of d ''confidence'' of None \<Rightarrow> PyFloat 0.8 | Some c \<Rightarrow> c)],
                content = (case map_of d ''content'' of None \<Rightarrow> PyDict [] | Some c \<Rightarrow> c),
                metadata = (case map_of d ''metadata'' of None \<Rightarrow> PyDict [] | Some m \<Rightarrow> m)\<rparr>"
    unfolding es by blast
  from extract_success(1) [OF an s]
  show "snd (MultiEngineExtractor_extract self env p) =
           Inr \<lparr>extraction_info = PyDict
                  [(''file_name'', PyStr (path_name p)),
                   (''processing_time'', PyStr (processing_time env)),
                   (''engine_used'', PyList [PyStr name]),
                   (''status'', PyStr ''success''),
                   (''confidence'', case map_of d ''confidence'' of None \<Rightarrow> PyFloat 0.8 | Some c \<Rightarrow> c)],
                content = (case map_of d ''content'' of None \<Rightarrow> PyDict [] | Some c \<Rightarrow> c),
                metadata = (case map_of d ''metadata'' of None \<Rightarrow> PyDict [] | Some m \<Rightarrow> m)\<rparr>" .
  from extract_success(2) [OF an s] l
  show "info_records (fst (MultiEngineExtractor_extract self env p))
           = map (trying p) (map fst pre @ [name])"
    unfolding es by simp
qed

lemma env_full_doc_analysis:
  "analyze_pdf env_full ''doc.pdf'' =
     ([], Inr (PyDict [(''pages'', PyInt 1), (''has_text'', PyBool True),
                       (''has_images'', PyBool False),
                       (''estimated_scan_pages'', PyList [PyInt 0]),
                       (''file_size'', PyInt 1024),
                       (''processing_strategy'', PyStr ''text_extraction'')]))"
  by (simp add: analyze_pdf_def analyze_body_def pdfplumber_open_def path_stat_size_def env_full_def
         sampled_pages_def enumerate_def text_page_def strip_def is_space_def strategy_of_def)

lemma env_full_doc_docling:
  "docling_extract env_full ''doc.pdf'' (PyDict ((''pages'', PyInt 1) # rest)) =
     Inr (result_dict (PyStr ''Quarterly report'') [] [] (PyInt 1) ''native'' 0.9)"
  by (simp add: docling_extract_def env_full_def result_dict_def)

lemma env_full_doc_pdfplumber:
  "pdfplumber_extract env_full ''doc.pdf'' a =
     Inr (result_dict (PyStr (''Quarterly report'' @ [CHR 0x0A]))
            [PyDict [(''page_num'', PyInt 1), (''text'', PyStr ''Quarterly report''),
                     (''tables'', PyList []), (''images'', PyList [])]]
            [] (PyInt 1) ''native'' 0.8)"
  by (simp add: pdfplumber_extract_def pdfplumber_open_def env_full_def result_dict_def
        enumerate_def text_page_def strip_def is_space_def)

lemma valid_result_dict:
  "is_valid_result (result_dict (PyStr t) ps ts n m c) = Inr (strip t \<noteq> [])"
  by (simp add: result_dict_def is_valid_result_dict)

lemma env_full_doc_succeeds:
  "engine_succeeds env_full ''doc.pdf'' (PyDict ((''pages'', PyInt 1) # rest)) docling_extract"
  "engine_succeeds env_full ''doc.pdf'' a pdfplumber_extract"
  by (simp_all add: engine_succeeds_def env_full_doc_docling env_full_doc_pdfplumber
        valid_result_dict strip_def is_space_def)

lemma docling_shape:
  assumes "docling_extract env p (PyDict ad) = Inr res" and "map_of ad ''pages'' = Some (PyInt k)"
  shows "\<exists>text. res = result_dict text [] [] (PyInt k) ''native'' 0.9"
  using assms
  by (auto simp: docling_extract_def result_dict_def split: if_splits sum.splits)

lemma pdfplumber_shape:
  assumes "pdfplumber_extract env p a = Inr res"
  shows "\<exists>t ps ts k. res = result_dict (PyStr t) ps ts (PyInt k) ''native''
                         (if strip t \<noteq> [] then 0.8 else 0.3)"
  using assms
  by (auto simp: pdfplumber_extract_def result_dict_def split: sum.splits prod.splits)

lemma tesseract_shape:
  assumes "tesseract_extract env p (PyDict ad) = Inr res" and "map_of ad ''pages'' = Some (PyInt k)"
  shows "res = result_dict (PyStr ocr_placeholder) [] [] (PyInt k) ''ocr'' 0.6"
  using assms
  by (auto simp: tesseract_extract_def result_dict_def split: if_splits sum.splits)

lemma adapter_shapes:
  assumes "(n, ex) \<in> set (engines init)"
      and "ex env p (PyDict ad) = Inr res"
      and "map_of ad ''pages'' = Some (PyInt k)"
  shows "\<exists>text ps ts k' m c. res = result_dict text ps ts (PyInt k') m c
           \<and> 0 \<le> c \<and> c \<le> 1 \<and> (m = ''native'' \<or> m = ''ocr'')"
proof -
  from assms(1) consider "ex = docling_extract" | "ex = pdfplumber_extract" | "ex = tesseract_extract"
    by (auto simp: init_def)
  then show ?thesis
  proof cases
    case 1
    with docling_shape assms(2,3) obtain tx where
      "res = result_dict tx [] [] (PyInt k) ''native'' 0.9" by blast
    then show ?thesis by (intro exI conjI, assumption) simp_all
  next
    case 2
    with pdfplumber_shape assms(2) obtain t ps ts k' where
      "res = result_dict (PyStr t) ps ts (PyInt k') ''native'' (if strip t \<noteq> [] then 0.8 else 0.3)"
      by blast
    then show ?thesis by (intro exI conjI, assumption) simp_all
  next
    case 3
    with tesseract_shape assms(2,3) have
      "res = result_dict (PyStr ocr_placeholder) [] [] (PyInt k) ''ocr'' 0.6" by blast
    then show ?thesis by (intro exI conjI, assumption) simp_all
  qed
qed

lemma files_flags [simp]:
  "pdfplumber_open (env\<lparr>DOCLING_AVAILABLE := b\<rparr>) p = pdfplumber_open env p"
  "pdfplumber_open (env\<lparr>TESSERACT_AVAILABLE := b\<rparr>) p = pdfplumber_open env p"
  "path_stat_size (env\<lparr>DOCLING_AVAILABLE := b\<rparr>) p = path_stat_size env p"
  "path_stat_size (env\<lparr>TESSERACT_AVAILABLE := b\<rparr>) p = path_stat_size env p"
  by (simp_all add: pdfplumber_open_def path_stat_size_def)

lemma analyze_pdf_flags [simp]:
  "analyze_pdf (env\<lparr>DOCLING_AVAILABLE := b\<rparr>) p = analyze_pdf env p"
  "analyze_pdf (env\<lparr>TESSERACT_AVAILABLE := b\<rparr>) p = analyze_pdf env p"
  by (simp_all add: analyze_pdf_def analyze_body_def split: sum.splits prod.splits)

lemma pdfplumber_extract_flags [simp]:
  "pdfplumber_extract (env\<lparr>DOCLING_AVAILABLE := b\<rparr>) p a = pdfplumber_extract env p a"
  "pdfplumber_extract (env\<lparr>TESSERACT_AVAILABLE := b\<rparr>) p a = pdfplumber_extract env p a"
  by (simp_all add: pdfplumber_extract_def)

lemma docling_unavailable:
  "\<not> DOCLING_AVAILABLE env \<Longrightarrow> \<not> engine_succeeds env p a docling_extract"
  by (simp add: engine_succeeds_def docling_extract_def)

lemma success_well_formed:
  assumes "is_valid_result (result_dict raw ps ts (PyInt k) m c) = Inr True"
      and "0 \<le> c" and "c \<le> 1" and "m = ''native'' \<or> m = ''ocr''"
      and "result_dict raw ps ts (PyInt k) m c = PyDict d"
  shows "well_formed
           \<lparr>extraction_info = PyDict
              [(''file_name'', PyStr fname),
               (''processing_time'', PyStr ptime),
               (''engine_used'', PyList [PyStr name]),
               (''status'', PyStr ''success''),
               (''confidence'', case map_of d ''confidence'' of None \<Rightarrow> PyFloat 0.8 | Some v \<Rightarrow> v)],
            content = (case map_of d ''content'' of None \<Rightarrow> PyDict [] | Some v \<Rightarrow> v),
            metadata = (case map_of d ''metadata'' of None \<Rightarrow> PyDict [] | Some v \<Rightarrow> v)\<rparr>"
proof -
  from assms(1) obtain t where "raw = PyStr t"
    unfolding is_valid_result_iff by (auto simp: result_dict_def)
  with assms(2-5) show ?thesis
    by (auto simp: well_formed_def has_field_def result_dict_def is_str_def is_int_def is_list_def
          is_engine_list_def is_confidence_def)
qed

lemma fallback_well_formed: "well_formed (fallback_result env p (PyInt k))"
  by (simp add: well_formed_def has_field_def fallback_result_def is_str_def is_int_def is_list_def
        is_engine_list_def is_confidence_def)

lemma extract_cases:
  assumes an: "snd (analyze_pdf env p) = Inr a"
  obtains (fallback) k where
      "\<forall>(n, f) \<in> set (engines self). \<not> engine_succeeds env p a f"
      "snd (MultiEngineExtractor_extract self env p) = Inr (fallback_result env p (PyInt k))"
  | (success) pre name ex post d where
      "engines self = pre @ (name, ex) # post"
      "\<forall>(n, f) \<in> set pre. \<not> engine_succeeds env p a f"
      "ex env p a = Inr (PyDict d)"
      "is_valid_result (PyDict d) = Inr True"
      "snd (MultiEngineExtractor_extract self env p) =
           Inr \<lparr>extraction_info = PyDict
                  [(''file_name'', PyStr (path_name p)),
                   (''processing_time'', PyStr (processing_time env)),
                   (''engine_used'', PyList [PyStr name]),
                   (''status'', PyStr ''success''),
                   (''confidence'', case map_of d ''confidence'' of None \<Rightarrow> PyFloat 0.8 | Some c \<Rightarrow> c)],
                content = (case map_of d ''content'' of None \<Rightarrow> PyDict [] | Some c \<Rightarrow> c),
                metadata = (case map_of d ''metadata'' of None \<Rightarrow> PyDict [] | Some m \<Rightarrow> m)\<rparr>"
proof (cases "\<exists>x \<in> set (engines self). engine_succeeds env p a (snd x)")
  case False
  then have all: "\<forall>(n, f) \<in> set (engines self). \<not> engine_succeeds env p a f" by auto
  from analyze_pdf_pages [of env p] an
  obtain ad k where a: "a = PyDict ad" "map_of ad ''pages'' = Some (PyInt k)" by auto
  then have g: "py_get a ''pages'' (PyInt 0) = Inr (PyInt k)" by simp
  from engines_loop_all_fail [OF all]
  have "snd (engines_loop env p a (engines self)) = None" by simp
  from extract_fallback [OF an this g] all show ?thesis by (rule fallback [rotated])
next
  case True
  from split_list_first_prop [OF True] obtain pre x post where
    s: "engines self = pre @ x # post" "engine_succeeds env p a (snd x)"
       "\<forall>y \<in> set pre. \<not> engine_succeeds env p a (snd y)" by blast
  obtain name ex where x: "x = (name, ex)" by (cases x)
  from s(2) x engine_succeeds_try obtain d where
    d: "ex env p a = Inr (PyDict d)" "is_valid_result (PyDict d) = Inr True" by fastforce
  from s(3) have pre: "\<forall>(n, f) \<in> set pre. \<not> engine_succeeds env p a f" by auto
  from s(1) x have es: "engines self = pre @ (name, ex) # post" by simp
  from first_success(1) [OF an es pre d] show ?thesis
    by (rule success [OF es pre d])
qed

lemma env_ocr_facts:
  "TESSERACT_AVAILABLE env_ocr"
  "analyze_pdf env_ocr p = analyze_pdf env_bare p"
  "\<not> engine_succeeds env_ocr p a docling_extract"
  "\<not> engine_succeeds env_ocr p a pdfplumber_extract"
  "processing_time env_ocr = ''1.25s''"
proof -
  show "TESSERACT_AVAILABLE env_ocr" by (simp add: env_ocr_def)
  show "analyze_pdf env_ocr p = analyze_pdf env_bare p" by (simp add: env_ocr_def)
  show "\<not> engine_succeeds env_ocr p a docling_extract"
    by (rule docling_unavailable) (simp add: env_ocr_def env_bare_def)
  show "\<not> engine_succeeds env_ocr p a pdfplumber_extract"
    using env_bare_engines(2) [of p a] by (simp add: env_ocr_def engine_succeeds_def)
  show "processing_time env_ocr = ''1.25s''"
    using processing_time_example by (simp add: env_ocr_def processing_time_def)
qed

lemma sampled_pages_snd: "map snd (sampled_pages pages) = take (min 5 (length pages)) pages"
  unfolding sampled_pages_def by (rule enumerate_snd)

lemma sampled_pages_fst: "map fst (sampled_pages pages) = [0..<min 5 (length pages)]"
  unfolding sampled_pages_def enumerate_fst by simp

lemma sampled_pages_take5: "sampled_pages pages = enumerate (take 5 pages)"
  by (simp add: sampled_pages_def take_min5)

lemma sampled_pages_length: "length (sampled_pages pages) = min 5 (length pages)"
  using arg_cong [OF sampled_pages_fst [of pages], of length] by simp

lemma analyze_body_success:
  assumes "pdfplumber_open env p = Inr pages"
      and "\<forall>pg \<in> set (take 5 pages). readable pg"
  shows "\<exists>has_text has_images scan n.
           sample_loop (sampled_pages pages) (False, False, []) = Inr (has_text, has_images, scan)
           \<and> path_stat_size env p = Inr n
           \<and> analyze_body env p =
               Inr (PyDict
                 [(''pages'', PyInt (int (length pages))),
                  (''has_text'', PyBool has_text),
                  (''has_images'', PyBool has_images),
                  (''estimated_scan_pages'', PyList (map (\<lambda>i. PyInt (int i)) scan)),
                  (''file_size'', PyInt (int n)),
                  (''processing_strategy'', PyStr (strategy_of has_text has_images))])"
proof -
  from open_stat [OF assms(1)] obtain n where n: "path_stat_size env p = Inr n" by blast
  have "\<not> (\<exists>e. sample_loop (sampled_pages pages) (False, False, []) = Inl e)"
    unfolding sample_loop_fails_iff sampled_pages_snd take_min5 using assms(2) by simp
  then obtain ht hi scan where
    l: "sample_loop (sampled_pages pages) (False, False, []) = Inr (ht, hi, scan)"
    by (cases "sample_loop (sampled_pages pages) (False, False, [])") auto
  show ?thesis
    by (intro exI conjI, rule l, rule n) (simp add: analyze_body_def assms(1) l n)
qed

lemma env_full_files:
  "pdfplumber_open env_full ''doc.pdf'' = Inr [text_page]"
  "pdfplumber_open env_full ''scan.pdf'' = Inr (replicate 7 scanned_page)"
  "pdfplumber_open env_full ''empty.pdf'' = Inr []"
  "path_stat_size env_full ''empty.pdf'' = Inr 300"
  "path_stat_size env_full ''scan.pdf'' = Inr 4096"
  by (simp_all add: pdfplumber_open_def path_stat_size_def env_full_def)

section \<open>The validator (claim C5)\<close>

text \<open>
  Claim C5. The validator answers \<^verbatim>\<open>True\<close> exactly on a dictionary whose \<^verbatim>\<open>content\<close>
  entry is a dictionary whose \<^verbatim>\<open>raw_text\<close> entry is a string that is not empty after
  \<^verbatim>\<open>strip()\<close>. Two results with the same \<^verbatim>\<open>raw_text\<close> entry get the same verdict,
  whatever their tables, images, confidence or pages. The texts \<^verbatim>\<open>""\<close> and three
  blanks are rejected, the text \<^verbatim>\<open>"a"\<close> is accepted.
\<close>

theorem validator_boundary:
  "(is_valid_result r = Inr True \<longleftrightarrow>
      (\<exists>d c t. r = PyDict d \<and> map_of d ''content'' = Some (PyDict c)
         \<and> map_of c ''raw_text'' = Some (PyStr t) \<and> strip t \<noteq> []))
   \<and> (map_of d ''content'' = Some (PyDict c) \<and> map_of d' ''content'' = Some (PyDict c')
          \<and> map_of c ''raw_text'' = map_of c' ''raw_text''
        \<longrightarrow> is_valid_result (PyDict d) = is_valid_result (PyDict d'))
   \<and> is_valid_result (PyDict [(''content'', PyDict [(''raw_text'', PyStr [])])]) = Inr False
   \<and> is_valid_result (PyDict [(''content'', PyDict [(''raw_text'', PyStr ''   '')])]) = Inr False
   \<and> is_valid_result (PyDict [(''content'', PyDict [(''raw_text'', PyStr ''a'')])]) = Inr True"
proof -
  have indep: "is_valid_result (PyDict d) = is_valid_result (PyDict d')"
    if "map_of d ''content'' = Some (PyDict c)" "map_of d' ''content'' = Some (PyDict c')"
       "map_of c ''raw_text'' = map_of c' ''raw_text''" for d d' c c'
  proof -
    from that have "d \<noteq> []" "d' \<noteq> []" by auto
    with that show ?thesis by (simp add: is_valid_result_dict)
  qed
  have ex: "is_valid_result (PyDict [(''content'', PyDict [(''raw_text'', PyStr [])])]) = Inr False"
    "is_valid_result (PyDict [(''content'', PyDict [(''raw_text'', PyStr ''   '')])]) = Inr False"
    "is_valid_result (PyDict [(''content'', PyDict [(''raw_text'', PyStr ''a'')])]) = Inr True"
    by (simp_all add: is_valid_result_dict strip_def is_space_def)
  from is_valid_result_iff [of r] indep [of d c d' c'] ex show ?thesis by blast
qed

text \<open>A result with a table and a confidence of 0 is judged like the bare text.\<close>

theorem validator_boundary_witness:
  "is_valid_result
     (PyDict [(''content'', PyDict [(''raw_text'', PyStr ''a''), (''tables'', PyList [PyNone])]),
              (''confidence'', PyFloat 0)])
   = is_valid_result (PyDict [(''content'', PyDict [(''raw_text'', PyStr ''a'')])])
   \<and> is_valid_result (PyDict [(''content'', PyDict [(''raw_text'', PyStr ''a'')])]) = Inr True"
  using validator_boundary
    [where d = "[(''content'', PyDict [(''raw_text'', PyStr ''a''), (''tables'', PyList [PyNone])]),
                 (''confidence'', PyFloat 0)]"
       and c = "[(''raw_text'', PyStr ''a''), (''tables'', PyList [PyNone])]"
       and d' = "[(''content'', PyDict [(''raw_text'', PyStr ''a'')])]"
       and c' = "[(''raw_text'', PyStr ''a'')]"]
  by simp

section \<open>The analyzer's failure path (claim C6)\<close>

text \<open>
  Claim C6. \<^verbatim>\<open>analyze_pdf\<close> always returns and never raises. When the file is missing,
  when it cannot be opened as a PDF, or when one of its sampled pages cannot be read
  (in short, when the body of the \<^verbatim>\<open>try\<close> block raises), the value returned is the
  record with \<^verbatim>\<open>pages = 1\<close>, both flags false, \<^verbatim>\<open>estimated_scan_pages = [0]\<close>,
  \<^verbatim>\<open>file_size = 0\<close> and the strategy \<^verbatim>\<open>fallback\<close>.
\<close>

theorem analyzer_never_raises:
  "(\<exists>a. snd (analyze_pdf env file_path) = Inr a)
   \<and> ((file_system env file_path = None
        \<or> (\<exists>f e. file_system env file_path = Some f \<and> pdf_pages f = Inl e)
        \<or> (\<exists>f pages. file_system env file_path = Some f \<and> pdf_pages f = Inr pages
              \<and> (\<exists>pg \<in> set (take 5 pages). \<not> readable pg))
        \<or> (\<exists>e. analyze_body env file_path = Inl e))
       \<longrightarrow> snd (analyze_pdf env file_path) =
             Inr (PyDict [(''pages'', PyInt 1),
                          (''has_text'', PyBool False),
                          (''has_images'', PyBool False),
                          (''estimated_scan_pages'', PyList [PyInt 0]),
                          (''file_size'', PyInt 0),
                          (''processing_strategy'', PyStr ''fallback'')]))"
proof -
  have total: "\<exists>a. snd (analyze_pdf env file_path) = Inr a"
    using analyze_pdf_pages [of env file_path] by blast
  have fails: "\<exists>e. analyze_body env file_path = Inl e"
    if "file_system env file_path = None
        \<or> (\<exists>f e. file_system env file_path = Some f \<and> pdf_pages f = Inl e)
        \<or> (\<exists>f pages. file_system env file_path = Some f \<and> pdf_pages f = Inr pages
              \<and> (\<exists>pg \<in> set (take 5 pages). \<not> readable pg))
        \<or> (\<exists>e. analyze_body env file_path = Inl e)"
    using that unfolding analyze_body_fails_iff
    by (auto simp: pdfplumber_open_def split: sum.splits)
  have "snd (analyze_pdf env file_path) = Inr minimal_analysis"
    if "\<exists>e. analyze_body env file_path = Inl e"
    using that by (auto simp: analyze_pdf_def)
  with total fails show ?thesis
    unfolding minimal_analysis_def by blast
qed

text \<open>A path with no file behind it.\<close>

theorem analyzer_never_raises_witness:
  "file_system env_bare ''missing.pdf'' = None
   \<and> snd (analyze_pdf env_bare ''missing.pdf'') =
       Inr (PyDict [(''pages'', PyInt 1),
                    (''has_text'', PyBool False),
                    (''has_images'', PyBool False),
                    (''estimated_scan_pages'', PyList [PyInt 0]),
                    (''file_size'', PyInt 0),
                    (''processing_strategy'', PyStr ''fallback'')])"
  using analyzer_never_raises [of env_bare "''missing.pdf''"]
  by (simp add: env_bare_def)

section \<open>The fallback result (claim C4)\<close>

text \<open>
  Claim C4. When no engine of the extractor succeeds (each one raises, or returns a result
  that the validator rejects or cannot judge), \<^verbatim>\<open>extract\<close> returns the fallback result:
  status \<^verbatim>\<open>fallback\<close>, engine list \<^verbatim>\<open>["fallback"]\<close>, confidence 0.1, the text
  \<^verbatim>\<open>Failed to extract content from\<close> followed by the file's name, no pages, tables or
  images, the page count of the analysis, and the method \<^verbatim>\<open>fallback\<close>.
\<close>

theorem fallback_on_total_failure:
  assumes "snd (analyze_pdf env pdf_path) = Inr analysis"
      and "\<forall>(n, f) \<in> set (engines self). \<not> engine_succeeds env pdf_path analysis f"
  shows "\<exists>total_pages.
           py_get analysis ''pages'' (PyInt 0) = Inr (PyInt total_pages)
           \<and> snd (MultiEngineExtractor_extract self env pdf_path) =
               Inr \<lparr>extraction_info = PyDict
                      [(''file_name'', PyStr (path_name pdf_path)),
                       (''processing_time'', PyStr (processing_time env)),
                       (''engine_used'', PyList [PyStr ''fallback'']),
                       (''status'', PyStr ''fallback''),
                       (''confidence'', PyFloat 0.1)],
                    content = PyDict
                      [(''raw_text'', PyStr (''Failed to extract content from '' @ path_name pdf_path)),
                       (''pages'', PyList []),
                       (''tables'', PyList []),
                       (''images'', PyList [])],
                    metadata = PyDict
                      [(''total_pages'', PyInt total_pages),
                       (''text_extraction_method'', PyStr ''fallback'')]\<rparr>"
proof -
  from analyze_pdf_pages [of env pdf_path] assms(1)
  obtain d n where a: "analysis = PyDict d" "map_of d ''pages'' = Some (PyInt n)" by auto
  then have g: "py_get analysis ''pages'' (PyInt 0) = Inr (PyInt n)" by simp
  from engines_loop_all_fail [OF assms(2)]
  have "snd (engines_loop env pdf_path analysis (engines self)) = None" by simp
  from extract_fallback [OF assms(1) this g] g show ?thesis
    by (auto simp: fallback_result_def)
qed

text \<open>No capability installed and no file on disk: all three engines raise.\<close>

theorem fallback_on_total_failure_witness:
  "snd (MultiEngineExtractor_extract init env_bare ''reports/q3.pdf'') =
     Inr \<lparr>extraction_info = PyDict
            [(''file_name'', PyStr ''q3.pdf''),
             (''processing_time'', PyStr ''1.25s''),
             (''engine_used'', PyList [PyStr ''fallback'']),
             (''status'', PyStr ''fallback''),
             (''confidence'', PyFloat 0.1)],
          content = PyDict
            [(''raw_text'', PyStr ''Failed to extract content from q3.pdf''),
             (''pages'', PyList []),
             (''tables'', PyList []),
             (''images'', PyList [])],
          metadata = PyDict
            [(''total_pages'', PyInt 1),
             (''text_extraction_method'', PyStr ''fallback'')]\<rparr>"
  using fallback_on_total_failure [of env_bare "''reports/q3.pdf''" minimal_analysis init]
  by (auto simp: env_bare_analysis env_bare_engines init_def path_name_example
        processing_time_example minimal_analysis_def)

section \<open>Engine priority (claim C3)\<close>

text \<open>
  Claim C3. The extractor is built with the engines \<^verbatim>\<open>docling\<close>, \<^verbatim>\<open>pdfplumber\<close>,
  \<^verbatim>\<open>tesseract\<close>, in this order. When the engines before some engine all fail and that engine
  succeeds, \<^verbatim>\<open>extract\<close> returns a success result whose \<^verbatim>\<open>engine_used\<close> is the
  one-element list of that engine's name; the engines invoked (one \<open>INFO\<close> record each)
  are exactly the ones up to and including it, in order; and replacing the engines after
  it by any others changes neither the result nor the log.
\<close>

theorem engine_priority:
  assumes "snd (analyze_pdf env pdf_path) = Inr analysis"
      and "engines self = pre @ (name, ex) # post"
      and "\<forall>(n, f) \<in> set pre. \<not> engine_succeeds env pdf_path analysis f"
      and "engine_succeeds env pdf_path analysis ex"
  shows "map fst (engines init) = [''docling'', ''pdfplumber'', ''tesseract'']
         \<and> (\<exists>r. snd (MultiEngineExtractor_extract self env pdf_path) = Inr r
                \<and> py_get (extraction_info r) ''engine_used'' PyNone = Inr (PyList [PyStr name])
                \<and> py_get (extraction_info r) ''status'' PyNone = Inr (PyStr ''success''))
         \<and> info_records (fst (MultiEngineExtractor_extract self env pdf_path))
               = map (trying pdf_path) (map fst pre @ [name])
         \<and> (\<forall>post'. MultiEngineExtractor_extract \<lparr>engines = pre @ (name, ex) # post'\<rparr> env pdf_path
                      = MultiEngineExtractor_extract self env pdf_path)"
proof -
  from engine_succeeds_try [OF assms(4)] obtain d where
    d: "ex env pdf_path analysis = Inr (PyDict d)" "is_valid_result (PyDict d) = Inr True" by blast
  note f = first_success [OF assms(1,2,3) d]
  have same: "MultiEngineExtractor_extract \<lparr>engines = pre @ (name, ex) # post'\<rparr> env pdf_path
                = MultiEngineExtractor_extract self env pdf_path" for post'
  proof -
    have e: "engines \<lparr>engines = pre @ (name, ex) # post'\<rparr> = pre @ (name, ex) # post'" by simp
    note g = first_success [OF assms(1) e assms(3) d]
    obtain log0 where a: "analyze_pdf env pdf_path = (log0, Inr analysis)"
      using assms(1) by (cases "analyze_pdf env pdf_path") auto
    note t = try_engine_success
      [where ex = ex and env = env and p = pdf_path and a = analysis and n = name, OF d]
    have "engines_loop env pdf_path analysis (pre @ (name, ex) # post')
            = engines_loop env pdf_path analysis (pre @ (name, ex) # post)"
      using assms(3) t
    proof (induction pre)
      case Nil
      then show ?case by simp
    next
      case (Cons x pre)
      obtain n f where x: "x = (n, f)" by (cases x)
      from Cons have "engines_loop env pdf_path analysis (pre @ (name, ex) # post')
            = engines_loop env pdf_path analysis (pre @ (name, ex) # post)" by simp
      then show ?case unfolding x by (simp split: sum.splits option.splits)
    qed
    then show ?thesis
      by (simp add: MultiEngineExtractor_extract_def assms(2) a)
  qed
  have "map fst (engines init) = [''docling'', ''pdfplumber'', ''tesseract'']"
    by (simp add: init_def)
  with f same show ?thesis by simp
qed

text \<open>The converter and the native-text engine would both succeed on \<^verbatim>\<open>doc.pdf\<close>; only the converter is invoked.\<close>

theorem engine_priority_witness:
  "(\<exists>a. snd (analyze_pdf env_full ''doc.pdf'') = Inr a
        \<and> engine_succeeds env_full ''doc.pdf'' a docling_extract
        \<and> engine_succeeds env_full ''doc.pdf'' a pdfplumber_extract)
   \<and> (\<exists>r. snd (MultiEngineExtractor_extract init env_full ''doc.pdf'') = Inr r
          \<and> py_get (extraction_info r) ''engine_used'' PyNone = Inr (PyList [PyStr ''docling'']))
   \<and> info_records (fst (MultiEngineExtractor_extract init env_full ''doc.pdf''))
        = [(INFO, ''Trying docling extraction for doc.pdf'')]"
  using engine_priority
    [of env_full "''doc.pdf''"
        "PyDict [(''pages'', PyInt 1), (''has_text'', PyBool True),
                       (''has_images'', PyBool False),
                       (''estimated_scan_pages'', PyList [PyInt 0]),
                       (''file_size'', PyInt 1024),
                       (''processing_strategy'', PyStr ''text_extraction'')]"
        init "[]" "''docling''" docling_extract
        "[(''pdfplumber'', pdfplumber_extract), (''tesseract'', tesseract_extract)]"]
  by (auto simp: env_full_doc_analysis env_full_doc_succeeds init_def trying_def)

section \<open>The success result (claim C7)\<close>



section \<open>Totality of the extraction (claim C1)\<close>

text \<open>
  Claim C1. For every path and every environment (whatever the file system holds behind
  the path, whichever capabilities are installed, whatever the converter returns or
  raises), \<^verbatim>\<open>extract\<close> on a freshly built extractor returns a result and raises
  nothing, and the result is well formed: \<^verbatim>\<open>extraction_info\<close>, \<^verbatim>\<open>content\<close> and
  \<^verbatim>\<open>metadata\<close> carry all their entries.
\<close>

theorem extract_total:
  "\<exists>r. snd (MultiEngineExtractor_extract init env pdf_path) = Inr r \<and> well_formed r"
proof -
  from analyze_pdf_pages [of env pdf_path]
  obtain ad k where a: "snd (analyze_pdf env pdf_path) = Inr (PyDict ad)"
    "map_of ad ''pages'' = Some (PyInt k)" by blast
  from a(1) show ?thesis
  proof (cases rule: extract_cases [where self = init])
    case (fallback k)
    with fallback_well_formed show ?thesis by simp
  next
    case (success pre name ex post d)
    from success(1) have mem: "(name, ex) \<in> set (engines init)" by simp
    from adapter_shapes [OF mem success(3) a(2)]
    obtain raw ps ts k' m c where
      r: "PyDict d = result_dict raw ps ts (PyInt k') m c" "0 \<le> c" "c \<le> 1"
         "m = ''native'' \<or> m = ''ocr''" by blast
    from success(4) r(1) have v: "is_valid_result (result_dict raw ps ts (PyInt k') m c) = Inr True"
      by simp
    from success_well_formed [OF v r(2,3,4) r(1) [symmetric]] success(5)
    show ?thesis by simp
  qed
qed

text \<open>A path with no file behind it, and no capability installed.\<close>

theorem extract_total_witness:
  "file_system env_bare ''reports/q3.pdf'' = None
   \<and> (\<exists>r. snd (MultiEngineExtractor_extract init env_bare ''reports/q3.pdf'') = Inr r
          \<and> well_formed r)"
  using extract_total [of env_bare "''reports/q3.pdf''"]
  by (simp add: env_bare_def)

section \<open>The OCR placeholder shadows the fallback (claim C10)\<close>

text \<open>
  Claim C10. When the OCR capability is installed, the OCR adapter does not raise inside
  \<^verbatim>\<open>extract\<close>: it returns the constant placeholder text, which is not blank and passes
  the validator. So \<^verbatim>\<open>extract\<close> returns a result of status \<^verbatim>\<open>success\<close>, never
  \<^verbatim>\<open>fallback\<close>; and when neither of the two engines before it succeeds, the result names
  \<^verbatim>\<open>tesseract\<close>, with confidence 0.6, the method \<^verbatim>\<open>ocr\<close> and the placeholder as text.
\<close>

theorem ocr_never_falls_back:
  assumes "TESSERACT_AVAILABLE env"
  shows "strip ocr_placeholder \<noteq> []
     \<and> (\<exists>a k. snd (analyze_pdf env pdf_path) = Inr a
            \<and> tesseract_extract env pdf_path a
                = Inr (result_dict (PyStr ocr_placeholder) [] [] (PyInt k) ''ocr'' 0.6)
            \<and> engine_succeeds env pdf_path a tesseract_extract
            \<and> (\<exists>r. snd (MultiEngineExtractor_extract init env pdf_path) = Inr r
                  \<and> py_get (extraction_info r) ''status'' PyNone = Inr (PyStr ''success'')
                  \<and> py_get (extraction_info r) ''status'' PyNone \<noteq> Inr (PyStr ''fallback'')
                  \<and> (\<not> engine_succeeds env pdf_path a docling_extract
                       \<and> \<not> engine_succeeds env pdf_path a pdfplumber_extract
                     \<longrightarrow> py_get (extraction_info r) ''engine_used'' PyNone
                            = Inr (PyList [PyStr ''tesseract''])
                         \<and> py_get (extraction_info r) ''confidence'' PyNone = Inr (PyFloat 0.6)
                         \<and> py_get (metadata r) ''text_extraction_method'' PyNone
                            = Inr (PyStr ''ocr'')
                         \<and> py_get (content r) ''raw_text'' PyNone = Inr (PyStr ocr_placeholder))))"
proof -
  have ne: "strip ocr_placeholder \<noteq> []"
    by (simp add: ocr_placeholder_def strip_def is_space_def)
  from analyze_pdf_pages [of env pdf_path]
  obtain ad k where a: "snd (analyze_pdf env pdf_path) = Inr (PyDict ad)"
    "map_of ad ''pages'' = Some (PyInt k)" by blast
  let ?a = "PyDict ad"
  let ?res = "result_dict (PyStr ocr_placeholder) [] [] (PyInt k) ''ocr'' 0.6"
  have t: "tesseract_extract env pdf_path ?a = Inr ?res"
    using assms a(2) by (simp add: tesseract_extract_def result_dict_def)
  have v: "is_valid_result ?res = Inr True"
    using ne unfolding valid_result_dict by simp
  have s: "engine_succeeds env pdf_path ?a tesseract_extract"
    unfolding engine_succeeds_def t using v by simp
  have last: "(''tesseract'', tesseract_extract) \<in> set (engines init)"
    by (simp add: init_def)
  from a(1) have "\<exists>r. snd (MultiEngineExtractor_extract init env pdf_path) = Inr r
                  \<and> py_get (extraction_info r) ''status'' PyNone = Inr (PyStr ''success'')
                  \<and> py_get (extraction_info r) ''status'' PyNone \<noteq> Inr (PyStr ''fallback'')
                  \<and> (\<not> engine_succeeds env pdf_path ?a docling_extract
                       \<and> \<not> engine_succeeds env pdf_path ?a pdfplumber_extract
                     \<longrightarrow> py_get (extraction_info r) ''engine_used'' PyNone
                            = Inr (PyList [PyStr ''tesseract''])
                         \<and> py_get (extraction_info r) ''confidence'' PyNone = Inr (PyFloat 0.6)
                         \<and> py_get (metadata r) ''text_extraction_method'' PyNone
                            = Inr (PyStr ''ocr'')
                         \<and> py_get (content r) ''raw_text'' PyNone = Inr (PyStr ocr_placeholder))"
  proof (cases rule: extract_cases [where self = init])
    case (fallback k)
    with s last show ?thesis by auto
  next
    case (success pre name ex post d)
    have "name = ''tesseract'' \<and> PyDict d = ?res"
      if n: "\<not> engine_succeeds env pdf_path ?a docling_extract"
            "\<not> engine_succeeds env pdf_path ?a pdfplumber_extract"
    proof -
      from success(3,4) have ok: "engine_succeeds env pdf_path ?a ex"
        by (simp add: engine_succeeds_def)
      from success(1) have "(name, ex) \<in> set (engines init)" by simp
      with ok n have "name = ''tesseract''" "ex = tesseract_extract"
        by (auto simp: init_def)
      with success(3) t show ?thesis by simp
    qed
    with success(5) show ?thesis
      by (auto simp: result_dict_def)
  qed
  with ne a(1) t s show ?thesis by blast
qed

text \<open>Only the OCR capability installed, and no file on disk.\<close>

theorem ocr_never_falls_back_witness:
  "TESSERACT_AVAILABLE env_ocr
   \<and> (\<exists>r. snd (MultiEngineExtractor_extract init env_ocr ''x.pdf'') = Inr r
        \<and> py_get (extraction_info r) ''status'' PyNone = Inr (PyStr ''success'')
        \<and> py_get (extraction_info r) ''engine_used'' PyNone = Inr (PyList [PyStr ''tesseract''])
        \<and> py_get (extraction_info r) ''confidence'' PyNone = Inr (PyFloat 0.6)
        \<and> py_get (metadata r) ''text_extraction_method'' PyNone = Inr (PyStr ''ocr'')
        \<and> py_get (content r) ''raw_text'' PyNone
            = Inr (PyStr ''OCR extraction placeholder - implementation needed''))"
  using ocr_never_falls_back [of env_ocr "''x.pdf''"]
  by (auto simp: env_ocr_facts env_bare_analysis ocr_placeholder_def)

section \<open>Strategy derivation (claim C2)\<close>



section \<open>The sampling bound (claim C8)\<close>

text \<open>
  Claim C8. For a document that \<^verbatim>\<open>pdfplumber\<close> opens, the pages the analyzer samples
  are the first \<open>min 5 n\<close> of its \<open>n\<close> pages, in order, numbered from 0: five pages when
  there are more than five, all of them otherwise. Every sampled page is read (the body
  of the \<^verbatim>\<open>try\<close> block completes exactly when each of them is readable), and no other
  page is: two documents with the same first five pages, the same page count and the same
  size get the same analysis. The indices in \<^verbatim>\<open>estimated_scan_pages\<close> are indices of
  sampled pages.
\<close>

theorem sampling_bound:
  assumes "pdfplumber_open env file_path = Inr pages"
  shows "map snd (sampled_pages pages) = take (min 5 (length pages)) pages
       \<and> map fst (sampled_pages pages) = [0..<min 5 (length pages)]
       \<and> (5 < length pages \<longrightarrow> length (sampled_pages pages) = 5)
       \<and> (length pages \<le> 5 \<longrightarrow> length (sampled_pages pages) = length pages)
       \<and> ((\<exists>a. analyze_body env file_path = Inr a)
            \<longleftrightarrow> (\<forall>pg \<in> set (take (min 5 (length pages)) pages). readable pg))
       \<and> (pdfplumber_open env' file_path' = Inr pages'
            \<and> take 5 pages' = take 5 pages \<and> length pages' = length pages
            \<and> path_stat_size env' file_path' = path_stat_size env file_path
          \<longrightarrow> analyze_pdf env' file_path' = analyze_pdf env file_path)
       \<and> (\<exists>a scan. snd (analyze_pdf env file_path) = Inr a
             \<and> py_get a ''estimated_scan_pages'' PyNone = Inr (PyList (map (\<lambda>i. PyInt (int i)) scan))
             \<and> (\<forall>i \<in> set scan. i < min 5 (length pages)))"
proof -
  have len: "(5 < length pages \<longrightarrow> length (sampled_pages pages) = 5)
       \<and> (length pages \<le> 5 \<longrightarrow> length (sampled_pages pages) = length pages)"
    by (simp add: sampled_pages_length)
  have ok: "(\<exists>a. analyze_body env file_path = Inr a)
            \<longleftrightarrow> (\<forall>pg \<in> set (take (min 5 (length pages)) pages). readable pg)"
  proof -
    have "(\<exists>a. analyze_body env file_path = Inr a) \<longleftrightarrow> \<not> (\<exists>e. analyze_body env file_path = Inl e)"
      by (cases "analyze_body env file_path") auto
    then show ?thesis
      unfolding analyze_body_fails_iff take_min5 by (simp add: assms)
  qed
  have indep: "analyze_pdf env' file_path' = analyze_pdf env file_path"
    if "pdfplumber_open env' file_path' = Inr pages'" "take 5 pages' = take 5 pages"
       "length pages' = length pages"
       "path_stat_size env' file_path' = path_stat_size env file_path"
  proof -
    have "analyze_body env' file_path' = analyze_body env file_path"
      by (simp add: analyze_body_def assms that sampled_pages_take5 split: sum.splits prod.splits)
    then show ?thesis by (simp add: analyze_pdf_def)
  qed
  have low: "\<exists>a scan. snd (analyze_pdf env file_path) = Inr a
             \<and> py_get a ''estimated_scan_pages'' PyNone = Inr (PyList (map (\<lambda>i. PyInt (int i)) scan))
             \<and> (\<forall>i \<in> set scan. i < min 5 (length pages))"
  proof (cases "\<forall>pg \<in> set (take 5 pages). readable pg")
    case True
    from analyze_body_success [OF assms True] obtain ht hi scan n where
      b: "sample_loop (sampled_pages pages) (False, False, []) = Inr (ht, hi, scan)"
         "analyze_body env file_path =
               Inr (PyDict
                 [(''pages'', PyInt (int (length pages))),
                  (''has_text'', PyBool ht),
                  (''has_images'', PyBool hi),
                  (''estimated_scan_pages'', PyList (map (\<lambda>i. PyInt (int i)) scan)),
                  (''file_size'', PyInt (int n)),
                  (''processing_strategy'', PyStr (strategy_of ht hi))])" by blast
    from sample_loop_indices [OF b(1)] have "set scan \<subseteq> set (map fst (sampled_pages pages))"
      by simp
    then have "\<forall>i \<in> set scan. i < min 5 (length pages)"
      unfolding sampled_pages_fst by auto
    with b(2) have "snd (analyze_pdf env file_path) = Inr (PyDict
                 [(''pages'', PyInt (int (length pages))),
                  (''has_text'', PyBool ht),
                  (''has_images'', PyBool hi),
                  (''estimated_scan_pages'', PyList (map (\<lambda>i. PyInt (int i)) scan)),
                  (''file_size'', PyInt (int n)),
                  (''processing_strategy'', PyStr (strategy_of ht hi))])
        \<and> py_get (PyDict
                 [(''pages'', PyInt (int (length pages))),
                  (''has_text'', PyBool ht),
                  (''has_images'', PyBool hi),
                  (''estimated_scan_pages'', PyList (map (\<lambda>i. PyInt (int i)) scan)),
                  (''file_size'', PyInt (int n)),
                  (''processing_strategy'', PyStr (strategy_of ht hi))])
             ''estimated_scan_pages'' PyNone = Inr (PyList (map (\<lambda>i. PyInt (int i)) scan))
        \<and> (\<forall>i \<in> set scan. i < min 5 (length pages))"
      by (simp add: analyze_pdf_def)
    then show ?thesis by blast
  next
    case False
    then have ne: "pages \<noteq> []" by auto
    from False have "\<exists>e. analyze_body env file_path = Inl e"
      unfolding analyze_body_fails_iff by (simp add: assms)
    then have "snd (analyze_pdf env file_path) = Inr minimal_analysis"
      by (auto simp: analyze_pdf_def)
    with ne have "snd (analyze_pdf env file_path) = Inr minimal_analysis
        \<and> py_get minimal_analysis ''estimated_scan_pages'' PyNone
            = Inr (PyList (map (\<lambda>i. PyInt (int i)) [0]))
        \<and> (\<forall>i \<in> set [0]. i < min 5 (length pages))"
      by (simp add: minimal_analysis_def)
    then show ?thesis by blast
  qed
  from sampled_pages_snd [of pages] sampled_pages_fst [of pages] len ok indep low
  show ?thesis by blast
qed

text \<open>The document \<^verbatim>\<open>scan.pdf\<close> has seven pages; five are sampled.\<close>

theorem sampling_bound_witness:
  "pdfplumber_open env_full ''scan.pdf'' = Inr (replicate 7 scanned_page)
   \<and> length (sampled_pages (replicate 7 scanned_page)) = 5
   \<and> map fst (sampled_pages (replicate 7 scanned_page)) = [0, 1, 2, 3, 4]"
  using sampling_bound [of env_full "''scan.pdf''" "replicate 7 scanned_page"]
  by (simp add: env_full_files upt_rec)

end
